theory Spec2Isabelle
  imports Complex_Main
begin

section \<open>Conventions\<close>

text \<open>
  The programs of \<^verbatim>\<open>tpprl/exp_teacher.py\<close> and \<^verbatim>\<open>tpprl/exp_broadcaster.py\<close>
  compute on floating-point numbers. They are embedded here over the real numbers: every
  float is a \<open>real\<close>, rounding and the special values (infinities, NaN) are left out.
  Random draws of a \<^verbatim>\<open>RandomState\<close> are inputs of the model, one argument per draw.
\<close>

datatype error =
    IndexError
  | AssertionError
  | AttributeError
  | ValueError
  | InvalidArgumentError
  | FileNotFoundError int

section \<open>The student of \<^verbatim>\<open>exp_teacher.py\<close>\<close>








section \<open>The scenario of \<^verbatim>\<open>exp_teacher.py\<close>\<close>

text \<open>
  \<^verbatim>\<open>class Scenario\<close>, the fields of its time accounting: the horizon \<^verbatim>\<open>T\<close>, the
  flag \<^verbatim>\<open>_init\<close>, \<^verbatim>\<open>last_time\<close> and the lists \<^verbatim>\<open>time_deltas\<close> and
  \<^verbatim>\<open>items\<close>. The lists \<^verbatim>\<open>c_is\<close>, \<^verbatim>\<open>hidden_states\<close> and \<^verbatim>\<open>recalls\<close>
  grow by one entry wherever \<^verbatim>\<open>time_deltas\<close> does and are not read by the loop; they
  and the state of the sampler are left out. The sampler \<^verbatim>\<open>ExpCDFSampler\<close> is not among
  the sources: the successive answers of \<^verbatim>\<open>generate_sample()\<close>, a time and an item
  each, are an input of the model.
\<close>

record scenario =
  T :: real
  init_flag :: bool
  last_time :: real
  time_deltas :: "real list"
  items :: "nat list"

text \<open>\<^verbatim>\<open>Scenario.__init__\<close>: \<^verbatim>\<open>_init = False\<close>, \<^verbatim>\<open>last_time = -1\<close>, empty lists.\<close>

definition Scenario_init :: "real \<Rightarrow> scenario" where
  "Scenario_init horizon =
     \<lparr>T = horizon, init_flag = False, last_time = - 1, time_deltas = [], items = []\<rparr>"

text \<open>
  The \<^verbatim>\<open>while\<close> loop of \<^verbatim>\<open>Scenario.run\<close>. \<open>max_events\<close> is \<open>None\<close> for
  \<^verbatim>\<open>float('inf')\<close>. \<open>(t_next, item_next)\<close> is the answer of the sampler in hand, \<open>rest\<close>
  the answers still to come. The body appends the item and \<^verbatim>\<open>t_next - t\<close>, stores
  \<^verbatim>\<open>last_time = t\<close>, then moves \<^verbatim>\<open>t\<close> to \<^verbatim>\<open>t_next\<close> and asks for the next
  sample. The result is \<open>None\<close> when the loop asks for more samples than were supplied.
\<close>

fun run_loop ::
  "nat option \<Rightarrow> scenario \<Rightarrow> nat \<Rightarrow> real \<Rightarrow> real \<times> nat \<Rightarrow> (real \<times> nat) list \<Rightarrow> scenario option"
where
  "run_loop max_events sc idx t (t_next, item_next) rest =
     (if (case max_events of None \<Rightarrow> True | Some m \<Rightarrow> idx < m) \<and> t_next < T sc
      then
        (let sc' = sc\<lparr>items := items sc @ [item_next],
                       time_deltas := time_deltas sc @ [t_next - t],
                       last_time := t\<rparr>
         in case rest of
              [] \<Rightarrow> None
            | s # rest' \<Rightarrow> run_loop max_events sc' (idx + 1) t_next s rest')
      else Some sc)"

text \<open>
  \<^verbatim>\<open>Scenario.run(max_events)\<close>: \<^verbatim>\<open>assert not self._init\<close>, set the flag, draw the
  first sample, loop from \<^verbatim>\<open>idx = 0\<close>, \<^verbatim>\<open>t = 0\<close>.
\<close>

definition run :: "scenario \<Rightarrow> nat option \<Rightarrow> (real \<times> nat) list \<Rightarrow> (error + scenario) option" where
  "run sc max_events samples =
     (if init_flag sc then Some (Inl AssertionError)
      else case samples of
             [] \<Rightarrow> None
           | s # rest \<Rightarrow> map_option Inr (run_loop max_events (sc\<lparr>init_flag := True\<rparr>) 0 0 s rest))"

text \<open>\<^verbatim>\<open>Scenario.get_last_interval\<close>: \<^verbatim>\<open>assert self._init\<close>, then \<^verbatim>\<open>T - last_time\<close>.\<close>

definition get_last_interval :: "scenario \<Rightarrow> error + real" where
  "get_last_interval sc = (if init_flag sc then Inr (T sc - last_time sc) else Inl AssertionError)"

text \<open>\<^verbatim>\<open>Scenario.get_all_time_deltas\<close>: the deltas followed by \<^verbatim>\<open>T - last_time\<close>.\<close>

definition get_all_time_deltas :: "scenario \<Rightarrow> error + real list" where
  "get_all_time_deltas sc =
     (if init_flag sc then Inr (time_deltas sc @ [T sc - last_time sc]) else Inl AssertionError)"

text \<open>\<^verbatim>\<open>Scenario.get_num_events\<close>: one entry of \<^verbatim>\<open>c_is\<close> per event, as of \<^verbatim>\<open>time_deltas\<close>.\<close>

definition get_num_events :: "scenario \<Rightarrow> error + nat" where
  "get_num_events sc = (if init_flag sc then Inr (length (time_deltas sc)) else Inl AssertionError)"

section \<open>The broadcasters of \<^verbatim>\<open>exp_broadcaster.py\<close>\<close>





section \<open>Restoring a checkpoint in \<^verbatim>\<open>exp_teacher.py\<close>\<close>

text \<open>\<^verbatim>\<open>'{}'.format(n)\<close> for an integer: its decimal digits, with a sign when negative.\<close>

definition digit_char :: "nat \<Rightarrow> char" where
  "digit_char d = ''0123456789'' ! d"

function str_nat :: "nat \<Rightarrow> string" where
  "str_nat n = (if n < 10 then [digit_char n] else str_nat (n div 10) @ [digit_char (n mod 10)])"
  by pat_completeness auto
termination
  by (relation "measure (\<lambda>n. n)") auto

declare str_nat.simps [simp del]

definition str_int :: "int \<Rightarrow> string" where
  "str_int i = (if i < 0 then CHR ''-'' # str_nat (nat (- i)) else str_nat (nat i))"

text \<open>\<^verbatim>\<open>x.endswith(suffix)\<close>.\<close>

definition endswith :: "string \<Rightarrow> string \<Rightarrow> bool" where
  "endswith x sfx \<longleftrightarrow> length sfx \<le> length x \<and> drop (length x - length sfx) x = sfx"

text \<open>
  The \<^verbatim>\<open>CheckpointState\<close> that \<^verbatim>\<open>tf.train.get_checkpoint_state\<close> returns: the latest
  path and all paths. For a directory without a checkpoint state the library returns
  \<^verbatim>\<open>None\<close>; the file system is a map from directories to states.
\<close>

record checkpoint_state =
  model_checkpoint_path :: string
  all_model_checkpoint_paths :: "string list"

text \<open>
  \<^verbatim>\<open>ExpRecurrentTeacher.restore(restore_dir, epoch_to_recover)\<close>. The result is the path
  handed to \<^verbatim>\<open>self.saver.restore\<close>. Reading an attribute of \<^verbatim>\<open>None\<close> raises
  \<^verbatim>\<open>AttributeError\<close>.
\<close>

definition restore ::
  "string \<Rightarrow> (string \<rightharpoonup> checkpoint_state) \<Rightarrow> string option \<Rightarrow> int option \<Rightarrow> error + string"
where
  "restore save_dir get_checkpoint_state restore_dir epoch_to_recover =
     (let dir = (case restore_dir of None \<Rightarrow> save_dir | Some d \<Rightarrow> d);
          chkpt = get_checkpoint_state dir
      in case epoch_to_recover of
           Some ep \<Rightarrow>
             (case chkpt of
                None \<Rightarrow> Inl AttributeError
              | Some ck \<Rightarrow>
                  (let sfx = CHR ''-'' # str_int ep;
                       file = filter (\<lambda>x. endswith x sfx) (all_model_checkpoint_paths ck)
                   in if length file < 1 then Inl (FileNotFoundError ep) else Inr (file ! 0)))
         | None \<Rightarrow>
             (case chkpt of
                None \<Rightarrow> Inl AttributeError
              | Some ck \<Rightarrow> Inr (model_checkpoint_path ck)))"

section \<open>The training graph of \<^verbatim>\<open>ExpRecurrentTrainer\<close>\<close>

text \<open>
  The variables of the graph: \<^verbatim>\<open>Wm\<close> (one row per embedded source), \<^verbatim>\<open>Wh\<close>
  (one row per hidden unit), the columns \<^verbatim>\<open>Wt\<close>, \<^verbatim>\<open>Wr\<close>, \<^verbatim>\<open>Bh\<close>, \<^verbatim>\<open>vt\<close>
  and the scalars \<^verbatim>\<open>wt\<close>, \<^verbatim>\<open>bt\<close> (tensors of shape \<open>(1,)\<close>).
\<close>

record trainer_params =
  Wm :: "real list list"
  Wh :: "real list list"
  Wt :: "real list"
  Wr :: "real list"
  Bh :: "real list"
  vt :: "real list"
  wt :: real
  bt :: real

text \<open>
  One row of the placeholders of a batch: the trajectory's embedded source indices, ranks
  and time deltas, each padded to \<^verbatim>\<open>max_events\<close>, its \<^verbatim>\<open>seq_len\<close> and its
  \<^verbatim>\<open>last_interval\<close>. The graph treats every row of the batch alike and by itself.
\<close>

record batch_row =
  b_idxes :: "nat list"
  ranks :: "real list"
  t_deltas :: "real list"
  seq_len :: nat
  last_interval :: real

text \<open>
  \<^verbatim>\<open>src_embed_map\<close>: the other sources are numbered from 1 in their order, then the
  trained source gets 0.
\<close>

definition mk_src_embed_map :: "nat list \<Rightarrow> nat \<Rightarrow> (nat \<rightharpoonup> nat)" where
  "mk_src_embed_map other_sources own =
     (fold (\<lambda>(idx, x) m. m(x \<mapsto> idx + 1)) (enumerate 0 other_sources) Map.empty)(own \<mapsto> 0)"

text \<open>
  A row of the data frame of a simulation as \<^verbatim>\<open>get_feed_dict\<close> reads it: the source,
  the time \<^verbatim>\<open>t\<close>, \<^verbatim>\<open>time_delta\<close>, and the mean rank that
  \<^verbatim>\<open>RU.rank_of_src_in_df\<close> (library redqueen) computes for the row.
\<close>

record df_row =
  df_src_id :: nat
  df_t :: real
  df_time_delta :: real
  df_rank :: real

definition pad :: "nat \<Rightarrow> 'a \<Rightarrow> 'a list \<Rightarrow> 'a list" where
  "pad n z xs = xs @ replicate (n - length xs) z"

text \<open>
  The body of the loop of \<^verbatim>\<open>ExpRecurrentTrainer.get_feed_dict\<close> for one data frame:
  \<^verbatim>\<open>batch_len = min(rows, max_events)\<close>, the first \<^verbatim>\<open>batch_len\<close> entries are copied
  into arrays of zeros, and \<^verbatim>\<open>last_interval\<close> is \<^verbatim>\<open>end_time - df.t.iloc[-1]\<close> when
  all events were consumed (\<^verbatim>\<open>IndexError\<close> on an empty frame) and the next event's
  \<^verbatim>\<open>time_delta\<close> otherwise. A source that \<^verbatim>\<open>src_embed_map\<close> lacks makes pandas
  produce NaN; the model has no value for it and gives \<open>None\<close>. The two assertions on the
  whole batch (one sink per frame, \<^verbatim>\<open>batch_size\<close> frames) stand before the loop and
  are not part of its body.
\<close>

definition feed_row ::
  "(nat \<rightharpoonup> nat) \<Rightarrow> nat \<Rightarrow> real \<Rightarrow> df_row list \<Rightarrow> (error + batch_row) option" where
  "feed_row src_embed_map max_events end_time df =
     (let batch_len = min (length df) max_events;
          mapped = map (\<lambda>r. src_embed_map (df_src_id r)) df
      in if None \<in> set mapped then None
         else if batch_len = length df \<and> df = [] then Some (Inl IndexError)
         else Some (Inr
           \<lparr>b_idxes = pad max_events 0 (take batch_len (map the mapped)),
            ranks = pad max_events 0 (take batch_len (map df_rank df)),
            t_deltas = pad max_events 0 (take batch_len (map df_time_delta df)),
            seq_len = batch_len,
            last_interval = (if batch_len = length df then end_time - df_t (last df)
                             else df_time_delta (df ! batch_len))\<rparr>))"

definition dot :: "real list \<Rightarrow> real list \<Rightarrow> real" where
  "dot xs ys = sum_list (map2 (*) xs ys)"

definition vadd :: "real list \<Rightarrow> real list \<Rightarrow> real list" where
  "vadd xs ys = map2 (+) xs ys"

text \<open>
  The update of the hidden state inside the loop, for one row of the batch:
  \<^verbatim>\<open>tanh(Wm[b] + h Wh^T + rank Wr^T + t_delta Wt^T + Bh^T)\<close>.
\<close>

definition h_next :: "trainer_params \<Rightarrow> nat \<Rightarrow> real \<Rightarrow> real \<Rightarrow> real list \<Rightarrow> real list" where
  "h_next p b rk dt h =
     map tanh
       (vadd (vadd (vadd (vadd (Wm p ! b) (map (\<lambda>row. dot h row) (Wh p)))
                         (map (\<lambda>w. rk * w) (Wr p)))
                   (map (\<lambda>w. dt * w) (Wt p)))
             (Bh p))"

text \<open>
  \<^verbatim>\<open>batch_u_theta(batch_t_deltas)\<close>: \<^verbatim>\<open>exp(h vt + wt * t_delta + bt)\<close>. The Python
  closure reads the variable \<^verbatim>\<open>tf_batch_h_t\<close> at the time of the call, so \<open>h\<close> is the
  hidden state current at the call.
\<close>

definition batch_u_theta :: "trainer_params \<Rightarrow> real list \<Rightarrow> real \<Rightarrow> real" where
  "batch_u_theta p h d = exp (dot h (vt p) + wt p * d + bt p)"

text \<open>
  One pass of the body of \<^verbatim>\<open>for evt_idx in range(max_events)\<close> for one row. The mask
  of every \<^verbatim>\<open>tf.where\<close> is \<^verbatim>\<open>evt_idx <= seq_len\<close>; the log term is kept where the
  embedded index equals \<^verbatim>\<open>sim_opts.src_id\<close>. The result is the new hidden state and
  the entries appended to \<^verbatim>\<open>LL_log_terms\<close>, \<^verbatim>\<open>LL_int_terms\<close> and \<^verbatim>\<open>loss_terms\<close>.
\<close>

definition step ::
  "trainer_params \<Rightarrow> nat \<Rightarrow> nat \<Rightarrow> batch_row \<Rightarrow> real list \<Rightarrow> nat \<Rightarrow> real list \<times> real \<times> real \<times> real"
where
  "step p H sim_src_id row h evt_idx =
     (let m = (evt_idx \<le> seq_len row);
          b = b_idxes row ! evt_idx;
          d = t_deltas row ! evt_idx;
          h' = (if m then h_next p b (ranks row ! evt_idx) d h else replicate H 0);
          u = (if m then batch_u_theta p h' d else 0);
          LL_log = (if m then (if b = sim_src_id then ln u else 0) else 0);
          LL_int = (if m then - (1 / wt p) * (batch_u_theta p h' 0 - u) else 0);
          loss = (if m then - (1 / (2 * wt p)) * ((batch_u_theta p h' 0)\<^sup>2 - u\<^sup>2) else 0)
      in (h', LL_log, LL_int, loss))"

text \<open>The loop: the final hidden state and the three lists of terms.\<close>

fun unroll ::
  "trainer_params \<Rightarrow> nat \<Rightarrow> nat \<Rightarrow> batch_row \<Rightarrow> real list \<Rightarrow> nat list \<Rightarrow>
     real list \<times> real list \<times> real list \<times> real list"
where
  "unroll p H sim_src_id row h [] = (h, [], [], [])"
| "unroll p H sim_src_id row h (evt_idx # rest) =
     (case step p H sim_src_id row h evt_idx of
        (h', LL_log, LL_int, loss) \<Rightarrow>
          (case unroll p H sim_src_id row h' rest of
             (h_end, LL_log_terms, LL_int_terms, loss_terms) \<Rightarrow>
               (h_end, LL_log # LL_log_terms, LL_int # LL_int_terms, loss # loss_terms)))"

text \<open>
  The terminal terms added after the loop, from the last hidden state and
  \<^verbatim>\<open>last_interval\<close>.
\<close>

definition LL_last_term :: "trainer_params \<Rightarrow> real list \<Rightarrow> real \<Rightarrow> real" where
  "LL_last_term p h li = (1 / wt p) * (batch_u_theta p h 0 - batch_u_theta p h li)"

definition loss_last_term :: "trainer_params \<Rightarrow> real list \<Rightarrow> real \<Rightarrow> real" where
  "loss_last_term p h li =
     - (1 / (2 * wt p)) * ((batch_u_theta p h 0)\<^sup>2 - (batch_u_theta p h li)\<^sup>2)"

text \<open>
  \<^verbatim>\<open>self.LL\<close> and \<^verbatim>\<open>self.loss\<close> of \<^verbatim>\<open>ExpRecurrentTrainer\<close> for one row, with
  \<^verbatim>\<open>self.q = 10.0\<close>. The hidden state starts at zeros. \<^verbatim>\<open>tf.add_n\<close> of an empty
  list and a row that does not fit the placeholders raise \<^verbatim>\<open>ValueError\<close>; an embedded
  index outside \<^verbatim>\<open>Wm\<close> fails the lookup.
\<close>

definition ExpRecurrentTrainer_q :: real where
  "ExpRecurrentTrainer_q = 10"

definition ExpRecurrentTrainer_LL_loss ::
  "trainer_params \<Rightarrow> nat \<Rightarrow> nat \<Rightarrow> nat \<Rightarrow> batch_row \<Rightarrow> error + (real \<times> real)"
where
  "ExpRecurrentTrainer_LL_loss p H sim_src_id max_events row =
     (if max_events = 0 \<or> length (b_idxes row) \<noteq> max_events \<or>
         length (ranks row) \<noteq> max_events \<or> length (t_deltas row) \<noteq> max_events
      then Inl ValueError
      else if \<exists>b \<in> set (b_idxes row). \<not> b < length (Wm p) then Inl InvalidArgumentError
      else
        (case unroll p H sim_src_id row (replicate H 0) [0..<max_events] of
           (h_end, LL_log_terms, LL_int_terms, loss_terms) \<Rightarrow>
             (let LL0 = sum_list LL_log_terms + sum_list LL_log_terms;
                  loss0 = sum_list loss_terms;
                  LL = LL0 + LL_last_term p h_end (last_interval row);
                  loss1 = loss0 + loss_last_term p h_end (last_interval row);
                  loss = loss1 * (ExpRecurrentTrainer_q / 2)
              in Inr (LL, loss))))"

section \<open>The training graph of \<^verbatim>\<open>ExpRecurrentTeacher\<close>\<close>

text \<open>
  The cell \<^verbatim>\<open>TPPRExpMarkedCellStacked\<close> (module \<^verbatim>\<open>cells\<close>) is not among the sources.
  What \<^verbatim>\<open>tf.nn.dynamic_rnn\<close> returns for it, the per-step terms of every row, and the
  cell's \<^verbatim>\<open>last_LL\<close> and \<^verbatim>\<open>last_loss\<close>, one value per row, are inputs of the model.
\<close>

text \<open>
  \<^verbatim>\<open>LL_stack = (reduce_sum(LL_log_terms_stack, axis=1) -
  reduce_sum(LL_int_terms_stack, axis=1)) + LL_last_term_stack\<close>.
\<close>

definition LL_stack :: "real list list \<Rightarrow> real list list \<Rightarrow> real list \<Rightarrow> real list" where
  "LL_stack LL_log_terms_stack LL_int_terms_stack LL_last_term_stack =
     map (\<lambda>(lg, it, l). (sum_list lg - sum_list it) + l)
       (zip LL_log_terms_stack (zip LL_int_terms_stack LL_last_term_stack))"

text \<open>
  \<^verbatim>\<open>tf.pow(x, y)\<close> for \<open>x \<ge> 0\<close>: 1 for \<open>y = 0\<close>; at \<open>x = 0\<close> with \<open>y < 0\<close> the float
  is infinite and the model has no value.
\<close>

definition tf_pow :: "real \<Rightarrow> real \<Rightarrow> real option" where
  "tf_pow x y = (if y = 0 then Some 1 else if x = 0 \<and> y < 0 then None else Some (x powr y))"

text \<open>
  \<^verbatim>\<open>loss_stack = (q / 2) * (reduce_sum(loss_terms_stack, axis=1) + loss_last_term_stack)
  * tf.pow(tf.cast(global_step, float32), decay_q_rate)\<close>.
\<close>

definition loss_stack ::
  "real \<Rightarrow> real list list \<Rightarrow> real list \<Rightarrow> nat \<Rightarrow> real \<Rightarrow> real list option" where
  "loss_stack q loss_terms_stack loss_last_term_stack global_step decay_q_rate =
     (case tf_pow (real global_step) decay_q_rate of
        None \<Rightarrow> None
      | Some f \<Rightarrow>
          Some (map (\<lambda>(ls, l). (q / 2) * (sum_list ls + l) * f)
                  (zip loss_terms_stack loss_last_term_stack)))"

section \<open>The combined gradient\<close>

text \<open>
  \<^verbatim>\<open>tf.gradients\<close> is automatic differentiation of the backend. Its results are inputs
  of the model: for a variable, the gradient of the log-likelihood and of the loss of every
  trajectory of the batch, as tensors whose first axis is the batch.
\<close>

definition reduce_mean :: "real list \<Rightarrow> real" where
  "reduce_mean xs = sum_list xs / real (length xs)"

text \<open>\<^verbatim>\<open>tf.reduce_mean(x, axis=0)\<close> for a tensor of two and of three axes.\<close>

definition reduce_mean_axis0 :: "real list list \<Rightarrow> real list" where
  "reduce_mean_axis0 rows =
     (case rows of
        [] \<Rightarrow> []
      | r # _ \<Rightarrow> map (\<lambda>k. reduce_mean (map (\<lambda>row. row ! k) rows)) [0..<length r])"

definition reduce_mean_axis0_3 :: "real list list list \<Rightarrow> real list list" where
  "reduce_mean_axis0_3 ts =
     (case ts of
        [] \<Rightarrow> []
      | t # _ \<Rightarrow> map (\<lambda>j. reduce_mean_axis0 (map (\<lambda>t'. t' ! j) ts)) [0..<length t])"

text \<open>
  \<^verbatim>\<open>avg_reward\<close> of \<^verbatim>\<open>ExpRecurrentTeacher\<close>: the conditional expression covers the
  whole sum, \<^verbatim>\<open>(reduce_mean(rewards) + reduce_mean(loss_stack)) if with_advantage else 0.0\<close>.
\<close>

definition avg_reward :: "real list \<Rightarrow> real list \<Rightarrow> bool \<Rightarrow> real" where
  "avg_reward batch_rewards loss_stk with_advantage =
     (if with_advantage then reduce_mean batch_rewards + reduce_mean loss_stk else 0)"

text \<open>\<^verbatim>\<open>coef = tf.squeeze(batch_rewards, axis=-1) + loss_stack - avg_reward\<close>.\<close>

definition coef :: "real list \<Rightarrow> real list \<Rightarrow> bool \<Rightarrow> real list" where
  "coef batch_rewards loss_stk with_advantage =
     map (\<lambda>(r, l). r + l - avg_reward batch_rewards loss_stk with_advantage)
       (zip batch_rewards loss_stk)"

text \<open>
  \<^verbatim>\<open>tf.tile(tf.reshape(coef, (-1, 1)), [1, n])\<close> and
  \<^verbatim>\<open>tf.tile(tf.reshape(coef, (-1, 1, 1)), [1, n1, n2])\<close>.
\<close>

definition tile2 :: "real list \<Rightarrow> nat \<Rightarrow> real list list" where
  "tile2 c n = map (\<lambda>x. replicate n x) c"

definition tile3 :: "real list \<Rightarrow> nat \<Rightarrow> nat \<Rightarrow> real list list list" where
  "tile3 c n1 n2 = map (\<lambda>x. replicate n1 (replicate n2 x)) c"

text \<open>
  The three branches of the loop over the variables of \<^verbatim>\<open>ExpRecurrentTeacher\<close>, by
  the number of axes of \<^verbatim>\<open>LL_grad\<close>. \<open>loss_grad\<close> is \<open>None\<close> for the variable
  \<^verbatim>\<open>Vy_mini\<close>, where the code takes \<^verbatim>\<open>loss_grad = 0\<close>.
\<close>

definition avg_gradient_dim1 :: "real list \<Rightarrow> real list \<Rightarrow> real list option \<Rightarrow> real" where
  "avg_gradient_dim1 c LL_grad loss_grad =
     reduce_mean
       (case loss_grad of
          None \<Rightarrow> map2 (*) LL_grad c
        | Some lg \<Rightarrow> map2 (+) (map2 (*) LL_grad c) lg)"

definition avg_gradient_dim2 ::
  "real list \<Rightarrow> real list list \<Rightarrow> real list list option \<Rightarrow> real list" where
  "avg_gradient_dim2 c LL_grad loss_grad =
     reduce_mean_axis0
       (let weighted = map2 (map2 (*)) LL_grad (tile2 c (length (hd LL_grad)))
        in case loss_grad of
             None \<Rightarrow> weighted
           | Some lg \<Rightarrow> map2 (map2 (+)) weighted lg)"

definition avg_gradient_dim3 ::
  "real list \<Rightarrow> real list list list \<Rightarrow> real list list list option \<Rightarrow> real list list" where
  "avg_gradient_dim3 c LL_grad loss_grad =
     reduce_mean_axis0_3
       (let weighted = map2 (map2 (map2 (*))) LL_grad
                         (tile3 c (length (hd LL_grad)) (length (hd (hd LL_grad))))
        in case loss_grad of
             None \<Rightarrow> weighted
           | Some lg \<Rightarrow> map2 (map2 (map2 (+))) weighted lg)"

text \<open>
  \<^verbatim>\<open>ExpRecurrentTrainer\<close>: the gradient of tower \<open>idx\<close> for a variable is
  \<^verbatim>\<open>(rewards[idx] + loss[idx]) * LL_grads[x][idx][0] + loss_grads[x][idx][0]\<close>, and
  \<^verbatim>\<open>average_gradients\<close> stacks the towers and takes the mean over them. The gradient of
  a variable is taken here as the list of its entries.
\<close>

definition tower_gradient :: "real \<Rightarrow> real \<Rightarrow> real list \<Rightarrow> real list \<Rightarrow> real list" where
  "tower_gradient reward loss LL_grad loss_grad =
     map2 (+) (map (\<lambda>g. (reward + loss) * g) LL_grad) loss_grad"

definition average_gradients :: "real list list \<Rightarrow> real list" where
  "average_gradients tower_grads = reduce_mean_axis0 tower_grads"

definition avg_gradient ::
  "real list \<Rightarrow> real list \<Rightarrow> real list list \<Rightarrow> real list list \<Rightarrow> real list" where
  "avg_gradient batch_rewards loss LL_grads loss_grads =
     average_gradients
       (map (\<lambda>(r, l, g, lg). tower_gradient r l g lg)
          (zip batch_rewards (zip loss (zip LL_grads loss_grads))))"

section \<open>Clipping the gradients\<close>

text \<open>
  \<^verbatim>\<open>tf.clip_by_global_norm(t_list, clip_norm)\<close> is a function of TensorFlow, not of
  this repository. By its documentation \<^verbatim>\<open>global_norm = sqrt(sum([l2norm(t)**2 for t
  in t_list]))\<close>, every tensor becomes \<^verbatim>\<open>t * clip_norm / max(global_norm, clip_norm)\<close>,
  and the result is the list of clipped tensors with \<^verbatim>\<open>global_norm\<close>. A tensor is
  taken as the list of its entries.
\<close>

definition global_norm :: "real list list \<Rightarrow> real" where
  "global_norm t_list = sqrt (sum_list (map (\<lambda>t. sum_list (map (\<lambda>x. x\<^sup>2) t)) t_list))"

definition clip_by_global_norm :: "real list list \<Rightarrow> real \<Rightarrow> real list list \<times> real" where
  "clip_by_global_norm t_list clip_norm =
     (map (map (\<lambda>x. x * clip_norm / max (global_norm t_list) clip_norm)) t_list,
      global_norm t_list)"

text \<open>
  \<^verbatim>\<open>ExpRecurrentTeacher\<close>: the gradients of \<^verbatim>\<open>avg_gradient_stack\<close> are clipped
  together and paired again with their variables; the norm is \<^verbatim>\<open>grad_norm_stack\<close>,
  which \<^verbatim>\<open>train_many\<close> fetches and prints.
\<close>

definition clipped_avg_gradient_stack ::
  "(real list \<times> 'v) list \<Rightarrow> real \<Rightarrow> (real list \<times> 'v) list \<times> real" where
  "clipped_avg_gradient_stack avg_gradient_stack clip_norm =
     (let (clipped, grad_norm_stack) =
            clip_by_global_norm (map fst avg_gradient_stack) clip_norm
      in (zip clipped (map snd avg_gradient_stack), grad_norm_stack))"

section \<open>Properties of the student\<close>









section \<open>Properties of the scenario\<close>

text \<open>
  The loop keeps \<^verbatim>\<open>last_time\<close> one event behind: it stores the time \<^verbatim>\<open>t\<close> before
  \<^verbatim>\<open>t\<close> moves to the new event. With the sum of the deltas equal to \<^verbatim>\<open>t\<close> at entry,
  a loop that records an event ends with \<^verbatim>\<open>last_time\<close> equal to the sum of the deltas
  less the last delta.
\<close>

lemma run_loop_last_time:
  assumes "run_loop me sc idx t s rest = Some sc'" and "sum_list (time_deltas sc) = t"
  shows "sc' = sc \<or>
         (time_deltas sc' \<noteq> [] \<and> T sc' = T sc \<and> init_flag sc' = init_flag sc \<and>
          last_time sc' = sum_list (time_deltas sc') - last (time_deltas sc'))"
  using assms
proof (induction rest arbitrary: sc idx t s)
  case Nil
  then show ?case by (cases s) (auto split: if_splits)
next
  case (Cons a rest)
  obtain tn itn where s: "s = (tn, itn)" by (cases s)
  show ?case
  proof (cases "(case me of None \<Rightarrow> True | Some m \<Rightarrow> idx < m) \<and> tn < T sc")
    case False
    with Cons.prems s show ?thesis by auto
  next
    case True
    let ?sc1 = "sc\<lparr>items := items sc @ [itn], time_deltas := time_deltas sc @ [tn - t],
                   last_time := t\<rparr>"
    from True Cons.prems(1) s have r: "run_loop me ?sc1 (idx + 1) tn a rest = Some sc'"
      by simp
    have inv: "sum_list (time_deltas ?sc1) = tn" using Cons.prems(2) by simp
    from Cons.IH [OF r inv] Cons.prems(2) show ?thesis by auto
  qed
qed

text \<open>
  Hence the accounting of every run that returns: without an event the last interval is
  \<open>T + 1\<close> (\<^verbatim>\<open>last_time\<close> is still \<open>-1\<close>); with events, the deltas and the last interval
  add up to \<open>T\<close> plus the last delta.
\<close>

lemma run_accounting:
  assumes "run (Scenario_init horizon) me samples = Some (Inr sc')"
  shows "(time_deltas sc' = [] \<and> get_last_interval sc' = Inr (horizon + 1)) \<or>
         (time_deltas sc' \<noteq> [] \<and>
          (\<exists>l. get_last_interval sc' = Inr l \<and>
               sum_list (time_deltas sc') + l = horizon + last (time_deltas sc')))"
proof -
  from assms obtain s rest where
    r: "run_loop me ((Scenario_init horizon)\<lparr>init_flag := True\<rparr>) 0 0 s rest = Some sc'"
    by (auto simp: run_def Scenario_init_def split: list.splits if_splits)
  have "sum_list (time_deltas ((Scenario_init horizon)\<lparr>init_flag := True\<rparr>)) = 0"
    by (simp add: Scenario_init_def)
  from run_loop_last_time [OF r this] show ?thesis
    by (auto simp: Scenario_init_def get_last_interval_def)
qed

text \<open>
  C4. The claim is that the recorded deltas and the last interval of a completed trajectory
  add up to the horizon. A scenario with horizon 100 whose sampler answers 10 and then 200
  records one event at time 10 and stops; \<^verbatim>\<open>last_time\<close> is 0, not 10, the last interval
  is 100, and the sum is 110.
\<close>

theorem run_last_interval_overlaps_last_delta:
  "run (Scenario_init 100) (Some 100000) [(10, 0), (200, 0)] =
     Some (Inr \<lparr>T = 100, init_flag = True, last_time = 0, time_deltas = [10], items = [0]\<rparr>) \<and>
   get_last_interval
     \<lparr>T = 100, init_flag = True, last_time = 0, time_deltas = [10], items = [0]\<rparr> = Inr 100 \<and>
   sum_list (time_deltas
     \<lparr>T = 100, init_flag = True, last_time = 0, time_deltas = [10], items = [0]\<rparr>) + 100 = 110"
  by (simp add: run_def Scenario_init_def get_last_interval_def)

section \<open>Properties of the broadcasters\<close>




section \<open>Properties of restoring a checkpoint\<close>

lemma first_of_filter:
  assumes "filter P xs \<noteq> []"
  shows "filter P xs ! 0 \<in> set xs \<and> P (filter P xs ! 0)"
proof -
  from assms have "filter P xs ! 0 \<in> set (filter P xs)"
    by (intro nth_mem) simp
  then show ?thesis by simp
qed

text \<open>
  Where the directory has a checkpoint state, restoring an epoch raises
  \<^verbatim>\<open>FileNotFoundError\<close> exactly when no path ends with \<^verbatim>\<open>-<epoch>\<close>, and otherwise
  restores a path with that ending.
\<close>

lemma restore_with_state:
  assumes "get_checkpoint_state (case restore_dir of None \<Rightarrow> save_dir | Some d \<Rightarrow> d) = Some ck"
  shows "(restore save_dir get_checkpoint_state restore_dir (Some ep) = Inl (FileNotFoundError ep)
            \<longleftrightarrow> (\<forall>x \<in> set (all_model_checkpoint_paths ck). \<not> endswith x (CHR ''-'' # str_int ep))) \<and>
         ((\<exists>x \<in> set (all_model_checkpoint_paths ck). endswith x (CHR ''-'' # str_int ep)) \<longrightarrow>
           (\<exists>x \<in> set (all_model_checkpoint_paths ck). endswith x (CHR ''-'' # str_int ep) \<and>
              restore save_dir get_checkpoint_state restore_dir (Some ep) = Inr x))"
proof -
  let ?P = "\<lambda>x. endswith x (CHR ''-'' # str_int ep)"
  let ?f = "filter ?P (all_model_checkpoint_paths ck)"
  have r: "restore save_dir get_checkpoint_state restore_dir (Some ep) =
        (if length ?f < 1 then Inl (FileNotFoundError ep) else Inr (?f ! 0))"
    using assms by (simp add: restore_def Let_def)
  have e: "length ?f < 1 \<longleftrightarrow> (\<forall>x \<in> set (all_model_checkpoint_paths ck). \<not> ?P x)"
    by (auto simp: filter_empty_conv)
  have m: "\<not> length ?f < 1 \<Longrightarrow> ?f ! 0 \<in> set (all_model_checkpoint_paths ck) \<and> ?P (?f ! 0)"
    using first_of_filter [of ?P "all_model_checkpoint_paths ck"] by simp
  show ?thesis
  proof (cases "length ?f < 1")
    case True
    with r e show ?thesis by simp
  next
    case False
    from m [OF False] r e False show ?thesis by auto
  qed
qed

text \<open>
  C9. The claim is that restoring an epoch raises the distinct not-found error exactly when
  no saved checkpoint matches. In a directory without any checkpoint state no checkpoint
  matches epoch 5, and \<^verbatim>\<open>restore\<close> raises \<^verbatim>\<open>AttributeError\<close>, not
  \<^verbatim>\<open>FileNotFoundError\<close>.
\<close>

theorem restore_without_state_not_distinct:
  "restore ''teacher-log'' Map.empty None (Some 5) = Inl AttributeError \<and>
   restore ''teacher-log'' Map.empty None (Some 5) \<noteq> Inl (FileNotFoundError 5)"
  by (simp add: restore_def)

section \<open>Properties of the training graphs\<close>

lemma upt_0_2: "[0..<2] = [0, 1]"
  by (simp add: upt_rec)

lemma map_zip_by_index:
  assumes "length ys = length xs"
  shows "map f (zip xs ys) = map (\<lambda>i. f (xs ! i, ys ! i)) [0..<length xs]"
proof (rule nth_equalityI)
  show "length (map f (zip xs ys)) = length (map (\<lambda>i. f (xs ! i, ys ! i)) [0..<length xs])"
    using assms by simp
next
  fix i assume "i < length (map f (zip xs ys))"
  then show "map f (zip xs ys) ! i = map (\<lambda>i. f (xs ! i, ys ! i)) [0..<length xs] ! i"
    using assms by simp
qed

text \<open>
  What \<^verbatim>\<open>ExpRecurrentTrainer\<close> computes for a row: the log terms are added twice,
  the integral terms are not used, and the loss is \<open>q / 2\<close> times the sum of the loss
  terms and the terminal loss term.
\<close>

lemma ExpRecurrentTrainer_LL_loss_eq:
  assumes "ExpRecurrentTrainer_LL_loss p H sim_src_id max_events row = Inr (LL, loss)"
    and "unroll p H sim_src_id row (replicate H 0) [0..<max_events] = (h_end, lg, it, ls)"
  shows "LL = 2 * sum_list lg + LL_last_term p h_end (last_interval row)"
    and "loss = (ExpRecurrentTrainer_q / 2) * (sum_list ls + loss_last_term p h_end (last_interval row))"
proof -
  from assms have
    "Inr (LL, loss) =
       (Inr (sum_list lg + sum_list lg + LL_last_term p h_end (last_interval row),
             (sum_list ls + loss_last_term p h_end (last_interval row)) *
             (ExpRecurrentTrainer_q / 2)) :: error + real \<times> real)"
    by (simp add: ExpRecurrentTrainer_LL_loss_def Let_def split: if_splits)
  then have "LL = sum_list lg + sum_list lg + LL_last_term p h_end (last_interval row)"
    and "loss = (sum_list ls + loss_last_term p h_end (last_interval row)) *
                (ExpRecurrentTrainer_q / 2)"
    by simp_all
  then show "LL = 2 * sum_list lg + LL_last_term p h_end (last_interval row)"
    and "loss = (ExpRecurrentTrainer_q / 2) *
                (sum_list ls + loss_last_term p h_end (last_interval row))"
    by (simp_all add: mult.commute)
qed

text \<open>What \<^verbatim>\<open>ExpRecurrentTeacher\<close> computes for row \<open>i\<close> of a batch.\<close>

lemma LL_stack_nth:
  assumes "length its = length lgs" and "length lasts = length lgs" and "i < length lgs"
  shows "LL_stack lgs its lasts ! i = sum_list (lgs ! i) - sum_list (its ! i) + lasts ! i"
  using assms by (simp add: LL_stack_def)

text \<open>
  C1. The claim is that the log-likelihood of a trajectory is the sum of its log terms,
  minus the sum of its integral terms, plus the terminal term. In
  \<^verbatim>\<open>ExpRecurrentTrainer\<close>, for one own event after a delta of 1 (all weights 0,
  \<open>wt = -1\<close>, \<open>bt = 0\<close>, trained source 0, last interval 0), the log term is \<open>-1\<close>, the
  integral term is \<open>1 - exp(-1)\<close> and the terminal term is 0, and \<^verbatim>\<open>self.LL\<close> is
  \<open>-2\<close>: twice the log term, not \<open>exp(-1) - 2\<close>.
\<close>

theorem ExpRecurrentTrainer_LL_omits_integral_terms:
  "ExpRecurrentTrainer_LL_loss
     \<lparr>Wm = [[0]], Wh = [[0]], Wt = [0], Wr = [0], Bh = [0], vt = [0], wt = - 1, bt = 0\<rparr> 1 0 1
     \<lparr>b_idxes = [0], ranks = [0], t_deltas = [1], seq_len = 1, last_interval = 0\<rparr>
     = Inr (- 2, (1 - (exp (- 1))\<^sup>2) / 2 * 5) \<and>
   unroll
     \<lparr>Wm = [[0]], Wh = [[0]], Wt = [0], Wr = [0], Bh = [0], vt = [0], wt = - 1, bt = 0\<rparr> 1 0
     \<lparr>b_idxes = [0], ranks = [0], t_deltas = [1], seq_len = 1, last_interval = 0\<rparr> [0] [0..<1]
     = ([0], [- 1], [1 - exp (- 1)], [(1 - (exp (- 1))\<^sup>2) / 2]) \<and>
   LL_last_term
     \<lparr>Wm = [[0]], Wh = [[0]], Wt = [0], Wr = [0], Bh = [0], vt = [0], wt = - 1, bt = 0\<rparr> [0] 0 = 0 \<and>
   sum_list [- 1] - sum_list [1 - exp (- 1)] + 0 \<noteq> (- 2 :: real)"
  by (simp add: ExpRecurrentTrainer_LL_loss_def step_def h_next_def vadd_def dot_def
        batch_u_theta_def LL_last_term_def loss_last_term_def ExpRecurrentTrainer_q_def Let_def)

text \<open>At that input the graph is built and returns a value; the value is \<open>-2\<close>.\<close>

theorem ExpRecurrentTrainer_LL_omits_integral_terms_witness:
  "map_sum id fst (ExpRecurrentTrainer_LL_loss
     \<lparr>Wm = [[0]], Wh = [[0]], Wt = [0], Wr = [0], Bh = [0], vt = [0], wt = - 1, bt = 0\<rparr> 1 0 1
     \<lparr>b_idxes = [0], ranks = [0], t_deltas = [1], seq_len = 1, last_interval = 0\<rparr>)
   = Inr (- 2)"
  using ExpRecurrentTrainer_LL_omits_integral_terms by simp

text \<open>
  C2. The claim is that a step at an index \<open>\<ge> seq_len\<close> contributes zero and that padding
  changes nothing. In \<^verbatim>\<open>ExpRecurrentTrainer\<close> the mask is \<^verbatim>\<open>evt_idx <= seq_len\<close>: for
  a trajectory of one event (\<open>wt = -1\<close>, \<open>bt = 2\<close>, trained source 0) padded to two steps,
  the zero-padded step 1 contributes the log term 2, and \<^verbatim>\<open>self.LL\<close> is 6, where the
  same trajectory without the padded step gives 2.
\<close>

theorem ExpRecurrentTrainer_mask_admits_step_seq_len:
  "fst (snd (unroll
     \<lparr>Wm = [[0]], Wh = [[0]], Wt = [0], Wr = [0], Bh = [0], vt = [0], wt = - 1, bt = 2\<rparr> 1 0
     \<lparr>b_idxes = [0, 0], ranks = [0, 0], t_deltas = [1, 0], seq_len = 1, last_interval = 0\<rparr>
     [0] [0..<2])) = [1, 2] \<and>
   map_sum id fst (ExpRecurrentTrainer_LL_loss
     \<lparr>Wm = [[0]], Wh = [[0]], Wt = [0], Wr = [0], Bh = [0], vt = [0], wt = - 1, bt = 2\<rparr> 1 0 2
     \<lparr>b_idxes = [0, 0], ranks = [0, 0], t_deltas = [1, 0], seq_len = 1, last_interval = 0\<rparr>)
     = Inr 6 \<and>
   map_sum id fst (ExpRecurrentTrainer_LL_loss
     \<lparr>Wm = [[0]], Wh = [[0]], Wt = [0], Wr = [0], Bh = [0], vt = [0], wt = - 1, bt = 2\<rparr> 1 0 1
     \<lparr>b_idxes = [0], ranks = [0], t_deltas = [1], seq_len = 1, last_interval = 0\<rparr>)
     = Inr 2"
  by (simp add: upt_0_2 ExpRecurrentTrainer_LL_loss_def step_def h_next_def vadd_def dot_def
        batch_u_theta_def LL_last_term_def loss_last_term_def ExpRecurrentTrainer_q_def Let_def)

text \<open>Both graphs are built and return a value; the two values differ.\<close>

theorem ExpRecurrentTrainer_mask_admits_step_seq_len_witness:
  "map_sum id fst (ExpRecurrentTrainer_LL_loss
     \<lparr>Wm = [[0]], Wh = [[0]], Wt = [0], Wr = [0], Bh = [0], vt = [0], wt = - 1, bt = 2\<rparr> 1 0 2
     \<lparr>b_idxes = [0, 0], ranks = [0, 0], t_deltas = [1, 0], seq_len = 1, last_interval = 0\<rparr>)
   \<noteq>
   map_sum id fst (ExpRecurrentTrainer_LL_loss
     \<lparr>Wm = [[0]], Wh = [[0]], Wt = [0], Wr = [0], Bh = [0], vt = [0], wt = - 1, bt = 2\<rparr> 1 0 1
     \<lparr>b_idxes = [0], ranks = [0], t_deltas = [1], seq_len = 1, last_interval = 0\<rparr>)"
  using ExpRecurrentTrainer_mask_admits_step_seq_len by simp

text \<open>
  C6. The claim is that the log term of a step is included exactly when the event is the
  trained agent's. \<^verbatim>\<open>src_embed_map\<close> embeds the trained source as 0, the graph compares
  the embedded index with \<^verbatim>\<open>sim_opts.src_id\<close>. With trained source 1 and one other
  source 2, an event of source 2 is embedded as 1 and its log term (1 here) is included;
  an event of the trained source is embedded as 0 and its log term is left out.
\<close>

theorem ExpRecurrentTrainer_log_term_of_competitor:
  "mk_src_embed_map [2] 1 2 = Some 1 \<and> mk_src_embed_map [2] 1 1 = Some 0 \<and>
   feed_row (mk_src_embed_map [2] 1) 1 2
     [\<lparr>df_src_id = 2, df_t = 1, df_time_delta = 1, df_rank = 0\<rparr>]
     = Some (Inr \<lparr>b_idxes = [1], ranks = [0], t_deltas = [1], seq_len = 1, last_interval = 1\<rparr>) \<and>
   fst (snd (unroll
     \<lparr>Wm = [[0], [0]], Wh = [[0]], Wt = [0], Wr = [0], Bh = [0], vt = [0], wt = - 1, bt = 2\<rparr> 1 1
     \<lparr>b_idxes = [1], ranks = [0], t_deltas = [1], seq_len = 1, last_interval = 1\<rparr>
     [0] [0..<1])) = [1] \<and>
   feed_row (mk_src_embed_map [2] 1) 1 2
     [\<lparr>df_src_id = 1, df_t = 1, df_time_delta = 1, df_rank = 0\<rparr>]
     = Some (Inr \<lparr>b_idxes = [0], ranks = [0], t_deltas = [1], seq_len = 1, last_interval = 1\<rparr>) \<and>
   fst (snd (unroll
     \<lparr>Wm = [[0], [0]], Wh = [[0]], Wt = [0], Wr = [0], Bh = [0], vt = [0], wt = - 1, bt = 2\<rparr> 1 1
     \<lparr>b_idxes = [0], ranks = [0], t_deltas = [1], seq_len = 1, last_interval = 1\<rparr>
     [0] [0..<1])) = [0]"
  by (simp add: mk_src_embed_map_def feed_row_def pad_def step_def h_next_def vadd_def dot_def
        batch_u_theta_def Let_def)

text \<open>
  C5, as the code has it. In \<^verbatim>\<open>ExpRecurrentTrainer\<close> the loss of a row is \<open>q / 2\<close>
  times the sum of its loss terms and its terminal loss term, with \<open>q = 10\<close>. In
  \<^verbatim>\<open>ExpRecurrentTeacher\<close> the loss of row \<open>i\<close> is that product for the configured
  \<open>q\<close>, times \<^verbatim>\<open>global_step ** decay_q_rate\<close>: the factor is 1 for
  \<^verbatim>\<open>decay_q_rate = 0\<close>, and \<open>global_step powr decay_q_rate\<close> after the first step.
\<close>

theorem loss_is_weighted_sum_of_terms:
  "(ExpRecurrentTrainer_LL_loss p H sim_src_id max_events row = Inr (LL, loss) \<and>
    unroll p H sim_src_id row (replicate H 0) [0..<max_events] = (h_end, lg, it, ls) \<longrightarrow>
      loss = (10 / 2) * (sum_list ls + loss_last_term p h_end (last_interval row))) \<and>
   (length lasts = length terms \<longrightarrow>
      loss_stack q terms lasts global_step 0 =
        Some (map (\<lambda>i. (q / 2) * (sum_list (terms ! i) + lasts ! i)) [0..<length terms])) \<and>
   (length lasts = length terms \<and> 0 < global_step \<longrightarrow>
      loss_stack q terms lasts global_step decay_q_rate =
        Some (map (\<lambda>i. (q / 2) * (sum_list (terms ! i) + lasts ! i) *
                        real global_step powr decay_q_rate) [0..<length terms]))"
proof (intro conjI impI)
  assume "ExpRecurrentTrainer_LL_loss p H sim_src_id max_events row = Inr (LL, loss) \<and>
    unroll p H sim_src_id row (replicate H 0) [0..<max_events] = (h_end, lg, it, ls)"
  then show "loss = (10 / 2) * (sum_list ls + loss_last_term p h_end (last_interval row))"
    using ExpRecurrentTrainer_LL_loss_eq(2) [of p H sim_src_id max_events row LL loss h_end lg it ls]
    by (simp add: ExpRecurrentTrainer_q_def)
next
  assume len: "length lasts = length terms"
  show "loss_stack q terms lasts global_step 0 =
        Some (map (\<lambda>i. (q / 2) * (sum_list (terms ! i) + lasts ! i)) [0..<length terms])"
    by (simp add: loss_stack_def tf_pow_def map_zip_by_index [OF len])
next
  assume a: "length lasts = length terms \<and> 0 < global_step"
  then have len: "length lasts = length terms" by simp
  have "tf_pow (real global_step) decay_q_rate = Some (real global_step powr decay_q_rate)"
    using a by (simp add: tf_pow_def)
  then show "loss_stack q terms lasts global_step decay_q_rate =
        Some (map (\<lambda>i. (q / 2) * (sum_list (terms ! i) + lasts ! i) *
                        real global_step powr decay_q_rate) [0..<length terms])"
    by (simp add: loss_stack_def map_zip_by_index [OF len])
qed

theorem loss_is_weighted_sum_of_terms_witness:
  "ExpRecurrentTrainer_LL_loss
     \<lparr>Wm = [[0]], Wh = [[0]], Wt = [0], Wr = [0], Bh = [0], vt = [0], wt = - 1, bt = 0\<rparr> 1 0 1
     \<lparr>b_idxes = [0], ranks = [0], t_deltas = [1], seq_len = 1, last_interval = 0\<rparr>
     = Inr (- 2, (1 - (exp (- 1))\<^sup>2) / 2 * 5) \<and>
   (1 - (exp (- 1))\<^sup>2) / 2 * 5 =
     (10 / 2) * (sum_list [(1 - (exp (- 1))\<^sup>2) / 2] +
       loss_last_term
         \<lparr>Wm = [[0]], Wh = [[0]], Wt = [0], Wr = [0], Bh = [0], vt = [0], wt = - 1, bt = 0\<rparr>
         [0] 0) \<and>
   loss_stack 2 [[1]] [0] 2 0 = Some [1] \<and>
   loss_stack 2 [[1]] [0] 2 1 = Some [2]"
proof -
  let ?p = "\<lparr>Wm = [[0]], Wh = [[0]], Wt = [0], Wr = [0], Bh = [0], vt = [0], wt = - 1, bt = 0\<rparr>"
  let ?row = "\<lparr>b_idxes = [0], ranks = [0], t_deltas = [1], seq_len = 1, last_interval = 0\<rparr>"
  have run: "ExpRecurrentTrainer_LL_loss ?p 1 0 1 ?row = Inr (- 2, (1 - (exp (- 1))\<^sup>2) / 2 * 5)"
    by (simp add: ExpRecurrentTrainer_LL_loss_def step_def h_next_def vadd_def dot_def
          batch_u_theta_def LL_last_term_def loss_last_term_def ExpRecurrentTrainer_q_def Let_def)
  have terms: "unroll ?p 1 0 ?row (replicate 1 0) [0..<1] =
      ([0], [- 1], [1 - exp (- 1)], [(1 - (exp (- 1))\<^sup>2) / 2])"
    by (simp add: step_def h_next_def vadd_def dot_def batch_u_theta_def Let_def)
  have len: "length [0 :: real] = length [[1 :: real]]" and pos: "0 < (2 :: nat)"
    by simp_all
  note inst = loss_is_weighted_sum_of_terms
    [of ?p 1 0 1 ?row "- 2" "(1 - (exp (- 1))\<^sup>2) / 2 * 5" "[0]" "[- 1]" "[1 - exp (- 1)]"
        "[(1 - (exp (- 1))\<^sup>2) / 2]" "[0]" "[[1]]" 2 2 1]
  from inst run terms have a:
    "(1 - (exp (- 1))\<^sup>2) / 2 * 5 =
       (10 / 2) * (sum_list [(1 - (exp (- 1))\<^sup>2) / 2] + loss_last_term ?p [0] (last_interval ?row))"
    by blast
  from inst len have b: "loss_stack 2 [[1]] [0] 2 0 = Some [1]"
    by simp
  from inst len pos have c: "loss_stack 2 [[1]] [0] 2 1 = Some [2]"
    by simp
  from run a b c show ?thesis by simp
qed

text \<open>
  The claim as stated fails in \<^verbatim>\<open>ExpRecurrentTeacher\<close>: with \<open>q = 2\<close>, one loss term
  1, terminal term 0, \<^verbatim>\<open>global_step = 2\<close> and \<^verbatim>\<open>decay_q_rate = 1\<close> the loss is 2,
  where \<open>(q / 2) (1 + 0)\<close> is 1.
\<close>

theorem loss_stack_decay_q_rate_factor:
  "loss_stack 2 [[1]] [0] 2 1 = Some [2] \<and>
   loss_stack 2 [[1]] [0] 2 1 \<noteq> Some [(2 / 2) * (sum_list [1] + 0)]"
  by (simp add: loss_stack_def tf_pow_def)

section \<open>Properties of clipping\<close>

lemma sum_sq_scale:
  "sum_list (map (\<lambda>x. (x * s)\<^sup>2) (t :: real list)) = s\<^sup>2 * sum_list (map (\<lambda>x. x\<^sup>2) t)"
  by (induction t) (simp_all add: power_mult_distrib algebra_simps)

lemma sum_sq_nonneg: "0 \<le> sum_list (map (\<lambda>x. x\<^sup>2) (t :: real list))"
  by (induction t) simp_all

lemma sum_sum_sq_nonneg:
  "0 \<le> sum_list (map (\<lambda>t. sum_list (map (\<lambda>x. x\<^sup>2) t)) (ts :: real list list))"
proof (induction ts)
  case Nil
  then show ?case by simp
next
  case (Cons t ts)
  with sum_sq_nonneg [of t] show ?case by simp
qed

lemma global_norm_nonneg: "0 \<le> global_norm ts"
  by (simp add: global_norm_def sum_sum_sq_nonneg)

lemma sum_sum_sq_scale:
  "sum_list (map (\<lambda>t. sum_list (map (\<lambda>x. x\<^sup>2) t)) (map (map (\<lambda>x. x * s)) ts)) =
     s\<^sup>2 * sum_list (map (\<lambda>t. sum_list (map (\<lambda>x. x\<^sup>2) t)) (ts :: real list list))"
proof (induction ts)
  case Nil
  then show ?case by simp
next
  case (Cons t ts)
  have "sum_list (map (\<lambda>x. x\<^sup>2) (map (\<lambda>x. x * s) t)) = s\<^sup>2 * sum_list (map (\<lambda>x. x\<^sup>2) t)"
    using sum_sq_scale [of s t] by (simp add: o_def)
  with Cons show ?case by (simp add: algebra_simps)
qed

lemma global_norm_scale: "global_norm (map (map (\<lambda>x. x * s)) ts) = \<bar>s\<bar> * global_norm ts"
  unfolding global_norm_def sum_sum_sq_scale by (simp add: real_sqrt_mult)

lemma clip_above:
  assumes "0 < c" and "c < global_norm ts"
  shows "fst (clip_by_global_norm ts c) = map (map (\<lambda>x. x * (c / global_norm ts))) ts"
    and "global_norm (fst (clip_by_global_norm ts c)) = c"
proof -
  from assms have m: "max (global_norm ts) c = global_norm ts" by simp
  show a: "fst (clip_by_global_norm ts c) = map (map (\<lambda>x. x * (c / global_norm ts))) ts"
    by (simp add: clip_by_global_norm_def m)
  from assms have "\<bar>c / global_norm ts\<bar> * global_norm ts = c" by simp
  then show "global_norm (fst (clip_by_global_norm ts c)) = c"
    by (simp only: a global_norm_scale)
qed

lemma clip_below:
  assumes "0 < c" and "global_norm ts \<le> c"
  shows "fst (clip_by_global_norm ts c) = ts"
proof -
  from assms have m: "max (global_norm ts) c = c" by simp
  have "map (map (\<lambda>x. x * c / c)) ts = ts"
    using assms(1) by (simp add: map_idI)
  then show ?thesis by (simp add: clip_by_global_norm_def m)
qed

lemma sqrt_25: "sqrt 25 = (5::real)"
  using real_sqrt_abs [of 5] by simp

text \<open>
  C7. For a positive \<^verbatim>\<open>clip_norm\<close>: a bundle whose global norm exceeds it is applied
  with global norm \<^verbatim>\<open>clip_norm\<close>, every entry scaled by \<open>clip_norm / g\<close>; a bundle whose
  norm does not exceed it is unchanged; the variables keep their gradients' places; and
  the norm reported is the norm before clipping.
\<close>

theorem clipped_gradients_have_clip_norm:
  assumes "0 < clip_norm"
  shows "(clip_norm < global_norm (map fst stack) \<longrightarrow>
           global_norm (map fst (fst (clipped_avg_gradient_stack stack clip_norm))) = clip_norm \<and>
           map fst (fst (clipped_avg_gradient_stack stack clip_norm)) =
             map (map (\<lambda>x. x * (clip_norm / global_norm (map fst stack)))) (map fst stack)) \<and>
         (global_norm (map fst stack) \<le> clip_norm \<longrightarrow>
           fst (clipped_avg_gradient_stack stack clip_norm) = stack) \<and>
         map snd (fst (clipped_avg_gradient_stack stack clip_norm)) = map snd stack \<and>
         snd (clipped_avg_gradient_stack stack clip_norm) = global_norm (map fst stack)"
proof -
  let ?gs = "map fst stack"
  have len: "length (fst (clip_by_global_norm ?gs clip_norm)) = length (map snd stack)"
    by (simp add: clip_by_global_norm_def)
  have st: "fst (clipped_avg_gradient_stack stack clip_norm) =
        zip (fst (clip_by_global_norm ?gs clip_norm)) (map snd stack)"
    and nm: "snd (clipped_avg_gradient_stack stack clip_norm) = global_norm ?gs"
    by (simp_all add: clipped_avg_gradient_stack_def clip_by_global_norm_def)
  have f: "map fst (fst (clipped_avg_gradient_stack stack clip_norm)) =
        fst (clip_by_global_norm ?gs clip_norm)"
    unfolding st using len by (simp only: map_fst_zip)
  have s: "map snd (fst (clipped_avg_gradient_stack stack clip_norm)) = map snd stack"
    unfolding st using len by (simp only: map_snd_zip)
  have below: "global_norm ?gs \<le> clip_norm \<Longrightarrow>
      fst (clipped_avg_gradient_stack stack clip_norm) = stack"
    unfolding st by (simp only: clip_below [OF assms] zip_map_fst_snd)
  show ?thesis
    using f s nm below clip_above [OF assms, of ?gs] by simp
qed

theorem clipped_gradients_have_clip_norm_witness:
  "(0::real) < 1 \<and> 1 < global_norm (map fst [([3, 4], ''wt'')]) \<and>
   global_norm (map fst (fst (clipped_avg_gradient_stack [([3, 4], ''wt'')] 1))) = 1 \<and>
   map fst (fst (clipped_avg_gradient_stack [([3, 4], ''wt'')] 1)) = [[3 / 5, 4 / 5]] \<and>
   snd (clipped_avg_gradient_stack [([3, 4], ''wt'')] 1) = 5 \<and>
   (0::real) < 10 \<and> global_norm (map fst [([3, 4], ''wt'')]) \<le> 10 \<and>
   fst (clipped_avg_gradient_stack [([3, 4], ''wt'')] 10) = [([3, 4], ''wt'')]"
proof -
  let ?S = "[([3, 4], ''wt'')] :: (real list \<times> string) list"
  have g: "global_norm (map fst ?S) = 5"
    by (simp add: global_norm_def sqrt_25)
  have p1: "(0::real) < 1" and p10: "(0::real) < 10"
    by simp_all
  have lt: "1 < global_norm (map fst ?S)" and le: "global_norm (map fst ?S) \<le> 10"
    by (simp_all only: g)
  have sc: "map (map (\<lambda>x. x * (1 / global_norm (map fst ?S)))) (map fst ?S) = [[3 / 5, 4 / 5]]"
    by (simp only: g) simp
  from clipped_gradients_have_clip_norm [OF p1, of ?S] lt
  have a: "global_norm (map fst (fst (clipped_avg_gradient_stack ?S 1))) = 1"
    and b: "map fst (fst (clipped_avg_gradient_stack ?S 1)) =
            map (map (\<lambda>x. x * (1 / global_norm (map fst ?S)))) (map fst ?S)"
    and n: "snd (clipped_avg_gradient_stack ?S 1) = global_norm (map fst ?S)"
    by blast+
  from clipped_gradients_have_clip_norm [OF p10, of ?S] le
  have c: "fst (clipped_avg_gradient_stack ?S 10) = ?S"
    by blast
  from b sc have b': "map fst (fst (clipped_avg_gradient_stack ?S 1)) = [[3 / 5, 4 / 5]]"
    by (simp only:)
  from n g have n': "snd (clipped_avg_gradient_stack ?S 1) = 5"
    by (simp only:)
  from p1 lt a b' n' p10 le c show ?thesis by blast
qed

section \<open>Properties of the combined gradient\<close>

lemma map_nth_by_index: "map f xs = map (\<lambda>i. f (xs ! i)) [0..<length xs]"
  by (rule nth_equalityI) simp_all

lemma reduce_mean_axis0_nth:
  assumes "rows \<noteq> []" and "k < length (rows ! 0)"
  shows "reduce_mean_axis0 rows ! k =
         sum_list (map (\<lambda>i. rows ! i ! k) [0..<length rows]) / real (length rows)"
proof -
  from assms(1) obtain r rs where rows: "rows = r # rs" by (cases rows) auto
  with assms(2) have k: "k < length r" by simp
  have "reduce_mean_axis0 rows ! k = reduce_mean (map (\<lambda>row. row ! k) rows)"
    using k by (simp add: reduce_mean_axis0_def rows)
  also have "map (\<lambda>row. row ! k) rows = map (\<lambda>i. rows ! i ! k) [0..<length rows]"
    by (rule map_nth_by_index)
  finally show ?thesis by (simp add: reduce_mean_def)
qed

lemma reduce_mean_axis0_3_nth:
  assumes "ts \<noteq> []" and "j < length (ts ! 0)" and "k < length (ts ! 0 ! j)"
  shows "reduce_mean_axis0_3 ts ! j ! k =
         sum_list (map (\<lambda>i. ts ! i ! j ! k) [0..<length ts]) / real (length ts)"
proof -
  from assms(1) obtain t tl where ts: "ts = t # tl" by (cases ts) auto
  with assms(2) have j: "j < length t" by simp
  let ?rows = "map (\<lambda>t'. t' ! j) ts"
  have "reduce_mean_axis0_3 ts ! j = reduce_mean_axis0 ?rows"
    using j by (simp add: reduce_mean_axis0_3_def ts)
  moreover have "?rows \<noteq> []" using assms(1) by simp
  moreover have "k < length (?rows ! 0)" using assms(1,3) by (simp add: ts)
  ultimately have "reduce_mean_axis0_3 ts ! j ! k =
      sum_list (map (\<lambda>i. ?rows ! i ! k) [0..<length ?rows]) / real (length ?rows)"
    using reduce_mean_axis0_nth [of ?rows k] by simp
  also have "map (\<lambda>i. ?rows ! i ! k) [0..<length ?rows] = map (\<lambda>i. ts ! i ! j ! k) [0..<length ts]"
    by simp
  finally show ?thesis by simp
qed

lemma coef_nth:
  assumes "length loss_stk = length batch_rewards" and "i < length batch_rewards"
  shows "coef batch_rewards loss_stk with_advantage ! i =
         batch_rewards ! i + loss_stk ! i -
         (if with_advantage then reduce_mean batch_rewards + reduce_mean loss_stk else 0)"
  using assms by (simp add: coef_def avg_reward_def)

lemma avg_gradient_dim1_eq:
  assumes "length LL_grad = length c"
    and "case loss_grad of None \<Rightarrow> True | Some lg \<Rightarrow> length lg = length c"
  shows "avg_gradient_dim1 c LL_grad loss_grad =
         sum_list (map (\<lambda>i. c ! i * LL_grad ! i +
                        (case loss_grad of None \<Rightarrow> 0 | Some lg \<Rightarrow> lg ! i)) [0..<length c])
         / real (length c)"
proof (cases loss_grad)
  case None
  have "map2 (*) LL_grad c = map (\<lambda>i. c ! i * LL_grad ! i) [0..<length c]"
    using assms(1) by (intro nth_equalityI) (simp_all add: mult.commute)
  then show ?thesis using None assms(1) by (simp add: avg_gradient_dim1_def reduce_mean_def)
next
  case (Some lg)
  with assms(2) have l: "length lg = length c" by simp
  have "map2 (+) (map2 (*) LL_grad c) lg = map (\<lambda>i. c ! i * LL_grad ! i + lg ! i) [0..<length c]"
    using assms(1) l by (intro nth_equalityI) (simp_all add: mult.commute)
  then show ?thesis using Some assms(1) l by (simp add: avg_gradient_dim1_def reduce_mean_def)
qed

lemma avg_gradient_dim2_nth:
  assumes c: "c \<noteq> []" and A: "length LL_grad = length c"
    and An: "\<forall>i < length c. length (LL_grad ! i) = n"
    and L: "case loss_grad of None \<Rightarrow> True
            | Some lg \<Rightarrow> length lg = length c \<and> (\<forall>i < length c. length (lg ! i) = n)"
    and k: "k < n"
  shows "avg_gradient_dim2 c LL_grad loss_grad ! k =
         sum_list (map (\<lambda>i. c ! i * LL_grad ! i ! k +
                        (case loss_grad of None \<Rightarrow> 0 | Some lg \<Rightarrow> lg ! i ! k)) [0..<length c])
         / real (length c)"
proof -
  from c have B: "0 < length c" by simp
  from A c have Ane: "LL_grad \<noteq> []" by auto
  then have hd: "length (hd LL_grad) = n" using An B A by (simp add: hd_conv_nth)
  let ?W = "map2 (map2 (*)) LL_grad (tile2 c n)"
  let ?rows = "case loss_grad of None \<Rightarrow> ?W | Some lg \<Rightarrow> map2 (map2 (+)) ?W lg"
  have def: "avg_gradient_dim2 c LL_grad loss_grad = reduce_mean_axis0 ?rows"
    by (simp add: avg_gradient_dim2_def hd Let_def)
  have Wlen: "length ?W = length c" using A by (simp add: tile2_def)
  have Wi: "\<And>i. i < length c \<Longrightarrow> length (?W ! i) = n \<and> ?W ! i ! k = c ! i * LL_grad ! i ! k"
    using A An k by (simp add: tile2_def mult.commute)
  have rlen: "length ?rows = length c"
    using Wlen L by (cases loss_grad) simp_all
  have ri: "\<And>i. i < length c \<Longrightarrow> length (?rows ! i) = n \<and>
      ?rows ! i ! k = c ! i * LL_grad ! i ! k +
        (case loss_grad of None \<Rightarrow> 0 | Some lg \<Rightarrow> lg ! i ! k)"
  proof -
    fix i assume i: "i < length c"
    show "length (?rows ! i) = n \<and>
      ?rows ! i ! k = c ! i * LL_grad ! i ! k +
        (case loss_grad of None \<Rightarrow> 0 | Some lg \<Rightarrow> lg ! i ! k)"
    proof (cases loss_grad)
      case None
      with Wi [OF i] show ?thesis by simp
    next
      case (Some lg)
      with L have l: "length lg = length c" "length (lg ! i) = n" using i by simp_all
      with Some Wi [OF i] Wlen i k show ?thesis by simp
    qed
  qed
  have ne: "?rows \<noteq> []" using rlen c by auto
  have k0: "k < length (?rows ! 0)" using ri [OF B] k by simp
  have "reduce_mean_axis0 ?rows ! k =
        sum_list (map (\<lambda>i. ?rows ! i ! k) [0..<length ?rows]) / real (length ?rows)"
    by (rule reduce_mean_axis0_nth [OF ne k0])
  also have "map (\<lambda>i. ?rows ! i ! k) [0..<length ?rows] =
      map (\<lambda>i. c ! i * LL_grad ! i ! k +
        (case loss_grad of None \<Rightarrow> 0 | Some lg \<Rightarrow> lg ! i ! k)) [0..<length c]"
    unfolding rlen using ri by (intro map_cong) simp_all
  finally show ?thesis unfolding def rlen .
qed

lemma map2_3_nth:
  assumes "i < length W" and "i < length lg" and "j < length (W ! i)" and "j < length (lg ! i)"
    and "k < length (W ! i ! j)" and "k < length (lg ! i ! j)"
  shows "length (map2 (map2 (map2 f)) W lg ! i) = min (length (W ! i)) (length (lg ! i))"
    and "length (map2 (map2 (map2 f)) W lg ! i ! j) = min (length (W ! i ! j)) (length (lg ! i ! j))"
    and "map2 (map2 (map2 f)) W lg ! i ! j ! k = f (W ! i ! j ! k) (lg ! i ! j ! k)"
  using assms by simp_all

lemma avg_gradient_dim3_nth:
  assumes c: "c \<noteq> []" and A: "length LL_grad = length c"
    and An: "\<forall>i < length c. length (LL_grad ! i) = n1 \<and> (\<forall>j < n1. length (LL_grad ! i ! j) = n2)"
    and L: "case loss_grad of None \<Rightarrow> True
            | Some lg \<Rightarrow> length lg = length c \<and>
                (\<forall>i < length c. length (lg ! i) = n1 \<and> (\<forall>j < n1. length (lg ! i ! j) = n2))"
    and j: "j < n1" and k: "k < n2"
  shows "avg_gradient_dim3 c LL_grad loss_grad ! j ! k =
         sum_list (map (\<lambda>i. c ! i * LL_grad ! i ! j ! k +
                        (case loss_grad of None \<Rightarrow> 0 | Some lg \<Rightarrow> lg ! i ! j ! k)) [0..<length c])
         / real (length c)"
proof -
  from c have B: "0 < length c" by simp
  from A c have Ane: "LL_grad \<noteq> []" by auto
  have hd1: "length (hd LL_grad) = n1" using Ane An B by (simp add: hd_conv_nth)
  have "hd LL_grad \<noteq> []" using hd1 j by auto
  then have hd2: "length (hd (hd LL_grad)) = n2"
    using Ane An B j by (simp add: hd_conv_nth)
  define W where "W = map2 (map2 (map2 (*))) LL_grad (tile3 c n1 n2)"
  define ts where "ts = (case loss_grad of None \<Rightarrow> W | Some lg \<Rightarrow> map2 (map2 (map2 (+))) W lg)"
  have def: "avg_gradient_dim3 c LL_grad loss_grad = reduce_mean_axis0_3 ts"
    unfolding ts_def W_def by (simp add: avg_gradient_dim3_def hd1 hd2 Let_def)
  have Wlen: "length W = length c" using A by (simp add: W_def tile3_def)
  have Wi: "length (W ! i) = n1 \<and> length (W ! i ! j) = n2 \<and>
        W ! i ! j ! k = c ! i * LL_grad ! i ! j ! k" if "i < length c" for i
    using that A An j k by (simp add: W_def tile3_def mult.commute)
  have tlen: "length ts = length c"
    using Wlen L by (cases loss_grad) (simp_all add: ts_def)
  have ti: "length (ts ! i) = n1 \<and> length (ts ! i ! j) = n2 \<and>
      ts ! i ! j ! k = c ! i * LL_grad ! i ! j ! k +
        (case loss_grad of None \<Rightarrow> 0 | Some lg \<Rightarrow> lg ! i ! j ! k)" if i: "i < length c" for i
  proof (cases loss_grad)
    case None
    with Wi [OF i] show ?thesis by (simp add: ts_def)
  next
    case (Some lg)
    with L i j have l: "length lg = length c" "length (lg ! i) = n1" "length (lg ! i ! j) = n2"
      by simp_all
    have ts: "ts = map2 (map2 (map2 (+))) W lg" using Some by (simp add: ts_def)
    have p: "i < length W" "i < length lg" "j < length (W ! i)" "j < length (lg ! i)"
      "k < length (W ! i ! j)" "k < length (lg ! i ! j)"
      using Wi [OF i] Wlen l i j k by simp_all
    from map2_3_nth [OF p, of "(+)"] Wi [OF i] l Some show ?thesis
      unfolding ts by simp
  qed
  have ne: "ts \<noteq> []" using tlen c by auto
  have j0: "j < length (ts ! 0)" using ti [OF B] j by simp
  have k0: "k < length (ts ! 0 ! j)" using ti [OF B] k by simp
  have "reduce_mean_axis0_3 ts ! j ! k =
        sum_list (map (\<lambda>i. ts ! i ! j ! k) [0..<length ts]) / real (length ts)"
    by (rule reduce_mean_axis0_3_nth [OF ne j0 k0])
  also have "map (\<lambda>i. ts ! i ! j ! k) [0..<length ts] =
      map (\<lambda>i. c ! i * LL_grad ! i ! j ! k +
        (case loss_grad of None \<Rightarrow> 0 | Some lg \<Rightarrow> lg ! i ! j ! k)) [0..<length c]"
    unfolding tlen using ti by (intro map_cong) simp_all
  finally show ?thesis unfolding def tlen .
qed

lemma avg_gradient_nth:
  assumes R: "batch_rewards \<noteq> []" and Ls: "length loss = length batch_rewards"
    and G: "length LL_grads = length batch_rewards" and Lg: "length loss_grads = length batch_rewards"
    and n: "\<forall>i < length batch_rewards. length (LL_grads ! i) = n \<and> length (loss_grads ! i) = n"
    and k: "k < n"
  shows "avg_gradient batch_rewards loss LL_grads loss_grads ! k =
         sum_list (map (\<lambda>i. (batch_rewards ! i + loss ! i) * LL_grads ! i ! k + loss_grads ! i ! k)
                     [0..<length batch_rewards])
         / real (length batch_rewards)"
proof -
  let ?rows = "map (\<lambda>(r, l, g, lg). tower_gradient r l g lg)
                 (zip batch_rewards (zip loss (zip LL_grads loss_grads)))"
  from R have B: "0 < length batch_rewards" by simp
  have rlen: "length ?rows = length batch_rewards" using Ls G Lg by simp
  have ri: "\<And>i. i < length batch_rewards \<Longrightarrow> length (?rows ! i) = n \<and>
      ?rows ! i ! k = (batch_rewards ! i + loss ! i) * LL_grads ! i ! k + loss_grads ! i ! k"
    using Ls G Lg n k by (simp add: tower_gradient_def)
  have ne: "?rows \<noteq> []" using rlen R by auto
  have k0: "k < length (?rows ! 0)" using ri [OF B] k by simp
  have "reduce_mean_axis0 ?rows ! k =
        sum_list (map (\<lambda>i. ?rows ! i ! k) [0..<length ?rows]) / real (length ?rows)"
    by (rule reduce_mean_axis0_nth [OF ne k0])
  also have "map (\<lambda>i. ?rows ! i ! k) [0..<length ?rows] =
      map (\<lambda>i. (batch_rewards ! i + loss ! i) * LL_grads ! i ! k + loss_grads ! i ! k)
        [0..<length batch_rewards]"
    unfolding rlen using ri by (intro map_cong) simp_all
  finally show ?thesis unfolding avg_gradient_def average_gradients_def rlen .
qed

text \<open>
  C3. For a batch that is not empty. In \<^verbatim>\<open>ExpRecurrentTeacher\<close> the coefficient of
  trajectory \<open>i\<close> is \<open>R_i + L_i - b\<close>, where \<open>b\<close> is the mean reward plus the mean loss
  with the advantage formulation and 0 without. Every entry of the gradient of a variable
  is the mean over the batch of the coefficient times the entry of the gradient of the
  log-likelihood plus the entry of the gradient of the loss, for gradients of one, two
  and three axes (the coefficient is the same for all entries of a trajectory); for
  \<^verbatim>\<open>Vy_mini\<close> (\<open>None\<close>) the code takes 0 for the gradient of the loss. In
  \<^verbatim>\<open>ExpRecurrentTrainer\<close>, which has no advantage formulation, the same holds with
  \<open>b = 0\<close>.
\<close>

theorem combined_gradient_is_mean:
  assumes "batch_rewards \<noteq> []" and "length loss = length batch_rewards"
  shows
   "(\<forall>i < length batch_rewards.
       coef batch_rewards loss with_advantage ! i =
         batch_rewards ! i + loss ! i -
         (if with_advantage then reduce_mean batch_rewards + reduce_mean loss else 0)) \<and>
    (length ga = length batch_rewards \<and>
     (case la of None \<Rightarrow> True | Some lg \<Rightarrow> length lg = length batch_rewards) \<longrightarrow>
       avg_gradient_dim1 (coef batch_rewards loss with_advantage) ga la =
         sum_list (map (\<lambda>i. coef batch_rewards loss with_advantage ! i * ga ! i +
                            (case la of None \<Rightarrow> 0 | Some lg \<Rightarrow> lg ! i))
                     [0..<length batch_rewards]) / real (length batch_rewards)) \<and>
    (length gb = length batch_rewards \<and>
     (\<forall>i < length batch_rewards. length (gb ! i) = nb) \<and>
     (case lb of None \<Rightarrow> True
      | Some lg \<Rightarrow> length lg = length batch_rewards \<and>
                  (\<forall>i < length batch_rewards. length (lg ! i) = nb)) \<and>
     kb < nb \<longrightarrow>
       avg_gradient_dim2 (coef batch_rewards loss with_advantage) gb lb ! kb =
         sum_list (map (\<lambda>i. coef batch_rewards loss with_advantage ! i * gb ! i ! kb +
                            (case lb of None \<Rightarrow> 0 | Some lg \<Rightarrow> lg ! i ! kb))
                     [0..<length batch_rewards]) / real (length batch_rewards)) \<and>
    (length gc = length batch_rewards \<and>
     (\<forall>i < length batch_rewards.
        length (gc ! i) = nc \<and> (\<forall>j < nc. length (gc ! i ! j) = mc)) \<and>
     (case lc of None \<Rightarrow> True
      | Some lg \<Rightarrow> length lg = length batch_rewards \<and>
                  (\<forall>i < length batch_rewards.
                     length (lg ! i) = nc \<and> (\<forall>j < nc. length (lg ! i ! j) = mc))) \<and>
     jc < nc \<and> kc < mc \<longrightarrow>
       avg_gradient_dim3 (coef batch_rewards loss with_advantage) gc lc ! jc ! kc =
         sum_list (map (\<lambda>i. coef batch_rewards loss with_advantage ! i * gc ! i ! jc ! kc +
                            (case lc of None \<Rightarrow> 0 | Some lg \<Rightarrow> lg ! i ! jc ! kc))
                     [0..<length batch_rewards]) / real (length batch_rewards)) \<and>
    (length LL_grads = length batch_rewards \<and> length loss_grads = length batch_rewards \<and>
     (\<forall>i < length batch_rewards. length (LL_grads ! i) = n \<and> length (loss_grads ! i) = n) \<and>
     k < n \<longrightarrow>
       avg_gradient batch_rewards loss LL_grads loss_grads ! k =
         sum_list (map (\<lambda>i. (batch_rewards ! i + loss ! i - 0) * LL_grads ! i ! k +
                            loss_grads ! i ! k)
                     [0..<length batch_rewards]) / real (length batch_rewards))"
proof -
  let ?c = "coef batch_rewards loss with_advantage"
  have clen: "length ?c = length batch_rewards"
    using assms(2) by (simp add: coef_def)
  have cne: "?c \<noteq> []" using clen assms(1) by auto
  have p0: "\<forall>i < length batch_rewards.
       ?c ! i = batch_rewards ! i + loss ! i -
         (if with_advantage then reduce_mean batch_rewards + reduce_mean loss else 0)"
    using coef_nth [OF assms(2)] by blast
  have p1: "length ga = length batch_rewards \<and>
     (case la of None \<Rightarrow> True | Some lg \<Rightarrow> length lg = length batch_rewards) \<longrightarrow>
       avg_gradient_dim1 ?c ga la =
         sum_list (map (\<lambda>i. ?c ! i * ga ! i + (case la of None \<Rightarrow> 0 | Some lg \<Rightarrow> lg ! i))
                     [0..<length batch_rewards]) / real (length batch_rewards)"
    using avg_gradient_dim1_eq [of ga ?c la] unfolding clen by blast
  have p2: "length gb = length batch_rewards \<and>
     (\<forall>i < length batch_rewards. length (gb ! i) = nb) \<and>
     (case lb of None \<Rightarrow> True
      | Some lg \<Rightarrow> length lg = length batch_rewards \<and>
                  (\<forall>i < length batch_rewards. length (lg ! i) = nb)) \<and>
     kb < nb \<longrightarrow>
       avg_gradient_dim2 ?c gb lb ! kb =
         sum_list (map (\<lambda>i. ?c ! i * gb ! i ! kb +
                            (case lb of None \<Rightarrow> 0 | Some lg \<Rightarrow> lg ! i ! kb))
                     [0..<length batch_rewards]) / real (length batch_rewards)"
    using avg_gradient_dim2_nth [OF cne, of gb nb lb kb] unfolding clen by blast
  have p3: "length gc = length batch_rewards \<and>
     (\<forall>i < length batch_rewards.
        length (gc ! i) = nc \<and> (\<forall>j < nc. length (gc ! i ! j) = mc)) \<and>
     (case lc of None \<Rightarrow> True
      | Some lg \<Rightarrow> length lg = length batch_rewards \<and>
                  (\<forall>i < length batch_rewards.
                     length (lg ! i) = nc \<and> (\<forall>j < nc. length (lg ! i ! j) = mc))) \<and>
     jc < nc \<and> kc < mc \<longrightarrow>
       avg_gradient_dim3 ?c gc lc ! jc ! kc =
         sum_list (map (\<lambda>i. ?c ! i * gc ! i ! jc ! kc +
                            (case lc of None \<Rightarrow> 0 | Some lg \<Rightarrow> lg ! i ! jc ! kc))
                     [0..<length batch_rewards]) / real (length batch_rewards)"
    using avg_gradient_dim3_nth [OF cne, of gc nc mc lc jc kc] unfolding clen by blast
  have p4: "length LL_grads = length batch_rewards \<and> length loss_grads = length batch_rewards \<and>
     (\<forall>i < length batch_rewards. length (LL_grads ! i) = n \<and> length (loss_grads ! i) = n) \<and>
     k < n \<longrightarrow>
       avg_gradient batch_rewards loss LL_grads loss_grads ! k =
         sum_list (map (\<lambda>i. (batch_rewards ! i + loss ! i - 0) * LL_grads ! i ! k +
                            loss_grads ! i ! k)
                     [0..<length batch_rewards]) / real (length batch_rewards)"
    using avg_gradient_nth [OF assms, of LL_grads loss_grads n k] by simp
  from p0 p1 p2 p3 p4 show ?thesis by blast
qed

theorem combined_gradient_is_mean_witness:
  "coef [1, 3] [0, 2] True = [- 2, 2] \<and>
   avg_gradient_dim1 (coef [1, 3] [0, 2] True) [1, 1] None = 0 \<and>
   avg_gradient_dim2 (coef [1, 3] [0, 2] True) [[1, 0], [0, 1]] (Some [[1, 1], [1, 1]]) ! 0 = 0 \<and>
   avg_gradient_dim3 (coef [1, 3] [0, 2] True) [[[1]], [[2]]] None ! 0 ! 0 = 1 \<and>
   avg_gradient [1, 3] [0, 2] [[1], [1]] [[0], [0]] ! 0 = 3"
proof -
  let ?R = "[1, 3] :: real list" and ?L = "[0, 2] :: real list"
  have ne: "?R \<noteq> []" and len: "length ?L = length ?R" by simp_all
  have C: "coef ?R ?L True = [- 2, 2]"
    by (simp add: coef_def avg_reward_def reduce_mean_def)
  note inst = combined_gradient_is_mean [OF ne len, where with_advantage = True
      and ga = "[1, 1]" and la = None
      and gb = "[[1, 0], [0, 1]]" and lb = "Some [[1, 1], [1, 1]]" and nb = 2 and kb = 0
      and gc = "[[[1]], [[2]]]" and lc = None and nc = 1 and mc = 1 and jc = 0 and kc = 0
      and LL_grads = "[[1], [1]]" and loss_grads = "[[0], [0]]" and n = 1 and k = 0]
  have d1: "avg_gradient_dim1 (coef ?R ?L True) [1, 1] None = 0"
    using inst by (simp add: C upt_0_2)
  have d2: "avg_gradient_dim2 (coef ?R ?L True) [[1, 0], [0, 1]] (Some [[1, 1], [1, 1]]) ! 0 = 0"
    using inst by (simp add: C upt_0_2 All_less_Suc)
  have d3: "avg_gradient_dim3 (coef ?R ?L True) [[[1]], [[2]]] None ! 0 ! 0 = 1"
    using inst by (simp add: C upt_0_2 All_less_Suc)
  have d4: "avg_gradient ?R ?L [[1], [1]] [[0], [0]] ! 0 = 3"
    using inst by (simp add: upt_0_2 All_less_Suc)
  from C d1 d2 d3 d4 show ?thesis by blast
qed

end
